theory Spec2Isabelle
  imports Complex_Main
begin

section \<open>Errors and Python indexing\<close>

text \<open>
  The exceptions the code can raise, as values.  \<open>ConfigError\<close> is the
  \<^verbatim>\<open>Exception('1D observation dimensions this large are not supported!')\<close> of
  \<^verbatim>\<open>models/base.py\<close>; \<open>IndexError\<close> is Python's own, raised by reading a tuple or a
  list out of range; \<open>DimensionError\<close> stands for the errors the tensor library raises on
  a shape it cannot process; \<open>SamplingError\<close> for the \<^verbatim>\<open>ValueError\<close> of
  \<^verbatim>\<open>np.random.choice\<close>.
\<close>

datatype error = ConfigError | IndexError | DimensionError | SamplingError

text \<open>Sequencing of fallible steps: the first exception ends the computation.\<close>

definition ebind :: "error + 'a \<Rightarrow> ('a \<Rightarrow> error + 'b) \<Rightarrow> error + 'b" where
  "ebind m f = (case m of Inl e \<Rightarrow> Inl e | Inr x \<Rightarrow> f x)"

definition raises :: "error + 'a \<Rightarrow> bool" where
  "raises m = (case m of Inl e \<Rightarrow> True | Inr x \<Rightarrow> False)"

text \<open>\<^verbatim>\<open>xs[i]\<close> for a literal index \<open>i \<ge> 0\<close>: out of range raises.\<close>

definition py_index :: "'a list \<Rightarrow> nat \<Rightarrow> error + 'a" where
  "py_index xs i = (if i < length xs then Inr (xs ! i) else Inl IndexError)"

section \<open>Network architectures (\<^verbatim>\<open>src/rl_cookbook/models/base.py\<close>)\<close>

text \<open>
  An observation shape is a tuple of sizes.  A module built by the factories is the list
  of its layers, each with the constructor arguments the code passes:
  \<open>Conv2d in out kernel stride padding\<close>, likewise \<open>ConvTranspose2d\<close>.
\<close>

type_synonym shape = "nat list"

datatype layer =
    Flatten
  | Linear nat nat
  | ReLU
  | Conv2d nat nat nat nat nat
  | ConvTranspose2d nat nat nat nat nat
  | ReshapeLayer shape

definition create_simple_1D_encoder :: "shape \<Rightarrow> error + layer list" where
  "create_simple_1D_encoder input_dim =
     ebind (py_index input_dim 0) (\<lambda>d0.
     ebind (py_index input_dim 1) (\<lambda>d1.
       let flat_dim = d0 * d1 in
       Inr [Flatten, Linear flat_dim 16, ReLU, Linear 16 32, ReLU]))"

definition create_simple_1D_decoder :: "shape \<Rightarrow> error + layer list" where
  "create_simple_1D_decoder input_dim =
     ebind (py_index input_dim 0) (\<lambda>d0.
     ebind (py_index input_dim 1) (\<lambda>d1.
       let flat_dim = d0 * d1 in
       Inr [Linear 32 16, ReLU, Linear 16 flat_dim, ReshapeLayer input_dim]))"

definition create_gridworld_encoder :: "nat \<Rightarrow> layer list" where
  "create_gridworld_encoder n_channels =
     [Conv2d n_channels 8 4 2 0, ReLU, Conv2d 8 16 3 1 0, ReLU]"

definition create_gridworld_decoder :: "nat \<Rightarrow> layer list" where
  "create_gridworld_decoder n_channels =
     [ConvTranspose2d 16 8 3 1 0, ReLU, ConvTranspose2d 8 n_channels 4 2 0,
      Conv2d n_channels n_channels 3 1 1]"

definition create_atari_encoder :: "nat \<Rightarrow> layer list" where
  "create_atari_encoder n_channels =
     [Conv2d n_channels 32 5 5 0, ReLU, Conv2d 32 64 5 5 0, ReLU]"

definition create_atari_decoder :: "nat \<Rightarrow> layer list" where
  "create_atari_decoder n_channels =
     [ConvTranspose2d 64 32 5 5 0, ReLU, ConvTranspose2d 32 n_channels 5 5 0, ReLU,
      Conv2d n_channels n_channels 3 1 1]"

definition GYM_HIDDEN_SIZE :: nat where "GYM_HIDDEN_SIZE = 32"
definition GRIDWORLD_HIDDEN_SIZE :: nat where "GRIDWORLD_HIDDEN_SIZE = 64"
definition ATARI_HIDDEN_SIZE :: nat where "ATARI_HIDDEN_SIZE = 256"

definition get_hidden_size_from_obs_dim :: "shape \<Rightarrow> error + nat" where
  "get_hidden_size_from_obs_dim obs_dim =
     (if length obs_dim = 2 then
        ebind (py_index obs_dim 0) (\<lambda>d0.
          if d0 \<le> 32 then Inr GYM_HIDDEN_SIZE else Inl ConfigError)
      else
        ebind (py_index obs_dim 1) (\<lambda>d1.
          if d1 \<le> 32 then Inr GRIDWORLD_HIDDEN_SIZE else Inr ATARI_HIDDEN_SIZE))"

definition create_encoder_from_obs_dim :: "shape \<Rightarrow> error + layer list" where
  "create_encoder_from_obs_dim obs_dim =
     (if length obs_dim = 2 then
        ebind (py_index obs_dim 0) (\<lambda>d0.
          if d0 \<le> 32 then create_simple_1D_encoder obs_dim else Inl ConfigError)
      else
        ebind (py_index obs_dim 1) (\<lambda>d1.
          if d1 \<le> 32 then ebind (py_index obs_dim 0) (\<lambda>d0. Inr (create_gridworld_encoder d0))
          else ebind (py_index obs_dim 0) (\<lambda>d0. Inr (create_atari_encoder d0))))"

definition create_decoder_from_obs_dim :: "shape \<Rightarrow> error + layer list" where
  "create_decoder_from_obs_dim obs_dim =
     (if length obs_dim = 1 then
        ebind (py_index obs_dim 0) (\<lambda>d0.
          if d0 \<le> 32 then create_simple_1D_decoder obs_dim else Inl ConfigError)
      else
        ebind (py_index obs_dim 1) (\<lambda>d1.
          if d1 \<le> 32 then ebind (py_index obs_dim 0) (\<lambda>d0. Inr (create_gridworld_decoder d0))
          else ebind (py_index obs_dim 0) (\<lambda>d0. Inr (create_atari_decoder d0))))"

subsection \<open>The classification policy as the specification words it\<close>

text \<open>
  The specification names three architecture families.  \<open>spec_policy\<close> is the policy of
  its section 4.1, read literally: a length-2 shape with first element at most 32 is flat
  with width 32; a length-2 shape with a larger first element is unsupported; otherwise a
  shape whose second element is at most 32 is a small grid with width 64; any other shape
  is a large grid with width 256.  \<open>family_encoder\<close> is the encoder constructor the code
  has for each family.
\<close>

datatype family = Flat | SmallGrid | LargeGrid

definition second_at_most_32 :: "shape \<Rightarrow> bool" where
  "second_at_most_32 s = (case s of d0 # d1 # ds \<Rightarrow> d1 \<le> 32 | _ \<Rightarrow> False)"

definition spec_policy :: "shape \<Rightarrow> error + family \<times> nat" where
  "spec_policy s =
     (if length s = 2 \<and> hd s \<le> 32 then Inr (Flat, 32)
      else if length s = 2 then Inl ConfigError
      else if second_at_most_32 s then Inr (SmallGrid, 64)
      else Inr (LargeGrid, 256))"

fun family_encoder :: "family \<Rightarrow> shape \<Rightarrow> error + layer list" where
  "family_encoder Flat s = create_simple_1D_encoder s"
| "family_encoder SmallGrid s = Inr (create_gridworld_encoder (hd s))"
| "family_encoder LargeGrid s = Inr (create_atari_encoder (hd s))"

definition spec_hidden_size :: "shape \<Rightarrow> error + nat" where
  "spec_hidden_size s = ebind (spec_policy s) (\<lambda>(f, w). Inr w)"

definition spec_encoder :: "shape \<Rightarrow> error + layer list" where
  "spec_encoder s = ebind (spec_policy s) (\<lambda>(f, w). family_encoder f s)"


subsection \<open>Shapes through the layers\<close>

text \<open>
  What each layer of the tensor library does to the shape of its input, from the library's
  documentation; a shape the layer cannot process raises.  \<open>Flatten\<close> keeps the first
  dimension and merges the others (\<^verbatim>\<open>start_dim=1\<close>); \<open>Linear\<close> acts on the last
  dimension; the convolutions take a batched (rank 4) or unbatched (rank 3) input with as
  many channels as the layer has input channels, at least one, and give the output sizes \<open>(h + 2p - k) div s + 1\<close> and \<open>(h - 1) * s + k - 2p\<close>;
  \<open>ReshapeLayer\<close> is the class of the source, \<^verbatim>\<open>x.view(x.shape[0], *self.shape)\<close>.
\<close>

definition conv_size :: "nat \<Rightarrow> nat \<Rightarrow> nat \<Rightarrow> nat \<Rightarrow> error + nat" where
  "conv_size k s p h =
     (if s = 0 \<or> k = 0 \<or> h + 2 * p < k then Inl DimensionError
      else Inr ((h + 2 * p - k) div s + 1))"

definition conv_transpose_size :: "nat \<Rightarrow> nat \<Rightarrow> nat \<Rightarrow> nat \<Rightarrow> error + nat" where
  "conv_transpose_size k s p h =
     (if s = 0 \<or> k = 0 \<or> h = 0 \<or> (h - 1) * s + k \<le> 2 * p then Inl DimensionError
      else Inr ((h - 1) * s + k - 2 * p))"

definition conv_shape ::
  "(nat \<Rightarrow> error + nat) \<Rightarrow> nat \<Rightarrow> nat \<Rightarrow> shape \<Rightarrow> error + shape" where
  "conv_shape size_of c_in c_out s =
     (case s of
        [n, c, h, w] \<Rightarrow>
          if c = c_in \<and> c_in \<noteq> 0 then
            ebind (size_of h) (\<lambda>h'. ebind (size_of w) (\<lambda>w'. Inr [n, c_out, h', w']))
          else Inl DimensionError
      | [c, h, w] \<Rightarrow>
          if c = c_in \<and> c_in \<noteq> 0 then
            ebind (size_of h) (\<lambda>h'. ebind (size_of w) (\<lambda>w'. Inr [c_out, h', w']))
          else Inl DimensionError
      | _ \<Rightarrow> Inl DimensionError)"

fun layer_shape :: "layer \<Rightarrow> shape \<Rightarrow> error + shape" where
  "layer_shape Flatten s =
     (case s of d # d' # ds \<Rightarrow> Inr [d, prod_list (d' # ds)] | _ \<Rightarrow> Inl DimensionError)"
| "layer_shape (Linear n_in n_out) s =
     (if s \<noteq> [] \<and> last s = n_in then Inr (butlast s @ [n_out]) else Inl DimensionError)"
| "layer_shape ReLU s = Inr s"
| "layer_shape (Conv2d c_in c_out k st p) s = conv_shape (conv_size k st p) c_in c_out s"
| "layer_shape (ConvTranspose2d c_in c_out k st p) s =
     conv_shape (conv_transpose_size k st p) c_in c_out s"
| "layer_shape (ReshapeLayer shp) s =
     (case s of
        [] \<Rightarrow> Inl IndexError
      | batch_size # ds \<Rightarrow>
          if prod_list s = batch_size * prod_list shp then Inr (batch_size # shp)
          else Inl DimensionError)"

text \<open>\<^verbatim>\<open>nn.Sequential\<close>: the layers in order.\<close>

fun sequential_shape :: "layer list \<Rightarrow> shape \<Rightarrow> error + shape" where
  "sequential_shape [] s = Inr s"
| "sequential_shape (l # ls) s = ebind (layer_shape l s) (sequential_shape ls)"

text \<open>
  The trial forward pass of the constructors:
  \<^verbatim>\<open>encoder(torch.zeros(1, *obs_dim)).view(-1).shape[0]\<close>.
\<close>

definition trial_output_size :: "layer list \<Rightarrow> shape \<Rightarrow> error + nat" where
  "trial_output_size encoder obs_dim =
     ebind (sequential_shape encoder (1 # obs_dim)) (\<lambda>s. Inr (prod_list s))"

text \<open>
  \<^verbatim>\<open>if not hidden_size: hidden_size = get_hidden_size_from_obs_dim(obs_dim)\<close>: both
  \<^verbatim>\<open>None\<close> and \<open>0\<close> are false in Python.
\<close>

definition choose_hidden_size :: "nat option \<Rightarrow> shape \<Rightarrow> error + nat" where
  "choose_hidden_size hidden_size obs_dim =
     (case hidden_size of
        None \<Rightarrow> get_hidden_size_from_obs_dim obs_dim
      | Some h \<Rightarrow> if h = 0 then get_hidden_size_from_obs_dim obs_dim else Inr h)"

subsection \<open>\<^verbatim>\<open>PolicyNetwork\<close>\<close>

record policy_network =
  encoder_output_size :: nat
  layers :: "layer list"

definition PolicyNetwork_init ::
  "shape \<Rightarrow> nat \<Rightarrow> layer list option \<Rightarrow> nat option \<Rightarrow> error + policy_network" where
  "PolicyNetwork_init obs_dim n_acts encoder hidden_size =
     ebind (case encoder of None \<Rightarrow> create_encoder_from_obs_dim obs_dim | Some e \<Rightarrow> Inr e)
       (\<lambda>enc.
     ebind (trial_output_size enc obs_dim) (\<lambda>eos.
     ebind (choose_hidden_size hidden_size obs_dim) (\<lambda>hidden.
       Inr \<lparr>encoder_output_size = eos,
            layers = enc @ [Flatten, Linear eos hidden, ReLU, Linear hidden n_acts]\<rparr>)))"

definition PolicyNetwork_forward :: "policy_network \<Rightarrow> shape \<Rightarrow> error + shape" where
  "PolicyNetwork_forward self x = sequential_shape (layers self) x"

subsection \<open>\<^verbatim>\<open>StatePredictionModel\<close>\<close>

record state_prediction_model =
  downsample_convs :: "layer list"
  fc :: "layer list"
  upsample_convs :: "layer list"
  encoder_spm :: "layer list"

definition StatePredictionModel_init ::
  "shape \<Rightarrow> nat \<Rightarrow> nat option \<Rightarrow> error + state_prediction_model" where
  "StatePredictionModel_init obs_dim n_acts hidden_size =
     ebind (create_encoder_from_obs_dim obs_dim) (\<lambda>down.
     ebind (trial_output_size down obs_dim) (\<lambda>output_dim.
     ebind (choose_hidden_size hidden_size obs_dim) (\<lambda>hidden.
     ebind (create_decoder_from_obs_dim obs_dim) (\<lambda>up.
       Inr \<lparr>downsample_convs = down,
            fc = [Linear (output_dim + n_acts) hidden, ReLU, Linear hidden hidden, ReLU,
                  Linear hidden output_dim, ReLU],
            upsample_convs = up,
            encoder_spm = down @ [Flatten]\<rparr>))))"

text \<open>\<^verbatim>\<open>t.view(b, -1)\<close> on a tensor of shape \<open>s\<close>.\<close>

definition view_rows :: "shape \<Rightarrow> nat \<Rightarrow> error + shape" where
  "view_rows s b =
     (if b = 0 \<or> prod_list s mod b \<noteq> 0 then Inl DimensionError
      else Inr [b, prod_list s div b])"

text \<open>\<^verbatim>\<open>t.view(*shp)\<close> on a tensor of shape \<open>s\<close>.\<close>

definition view_as :: "shape \<Rightarrow> shape \<Rightarrow> error + shape" where
  "view_as s shp = (if prod_list s = prod_list shp then Inr shp else Inl DimensionError)"

text \<open>
  \<^verbatim>\<open>torch.cat([z, acts], dim=1)\<close> for a two-dimensional \<open>z\<close>: \<open>acts\<close> must have two
  dimensions and as many rows (the library skips an empty one-dimensional tensor).
\<close>

definition cat_dim1 :: "shape \<Rightarrow> shape \<Rightarrow> error + shape" where
  "cat_dim1 z acts =
     (case (z, acts) of
        ([b, w], [b', a]) \<Rightarrow> if b = b' then Inr [b, w + a] else Inl DimensionError
      | ([b, w], [a]) \<Rightarrow> if a = 0 then Inr [b, w] else Inl DimensionError
      | _ \<Rightarrow> Inl DimensionError)"

definition StatePredictionModel_forward ::
  "state_prediction_model \<Rightarrow> shape \<Rightarrow> shape \<Rightarrow> error + shape" where
  "StatePredictionModel_forward self obs acts =
     ebind (sequential_shape (downsample_convs self) obs) (\<lambda>conv_out.
     ebind (py_index obs 0) (\<lambda>b.
     ebind (view_rows conv_out b) (\<lambda>z.
     ebind (cat_dim1 z acts) (\<lambda>z.
     ebind (sequential_shape (fc self) z) (\<lambda>z.
     ebind (view_as z conv_out) (\<lambda>z.
       sequential_shape (upsample_convs self) z))))))"


section \<open>The experience buffer (\<^verbatim>\<open>agents/base.py\<close>)\<close>

text \<open>
  \<^verbatim>\<open>ExperienceBufferMixin\<close>: a list and its bound.  Methods mutate \<^verbatim>\<open>self\<close>; here they
  return the new state.  \<open>max_size\<close> is a Python integer.
\<close>

record 'a experience_buffer =
  buffer :: "'a list"
  max_size :: int

definition ExperienceBufferMixin_init :: "int \<Rightarrow> 'a experience_buffer" where
  "ExperienceBufferMixin_init m = \<lparr>buffer = [], max_size = m\<rparr>"

text \<open>
  The slice \<^verbatim>\<open>xs[k:]\<close>: a negative \<open>k\<close> counts from the end, and a start outside
  the list is clipped to it.
\<close>

definition py_slice_from :: "'a list \<Rightarrow> int \<Rightarrow> 'a list" where
  "py_slice_from xs k =
     (if k < 0 then drop (nat (int (length xs) + k)) xs else drop (nat k) xs)"

definition fix_size :: "'a experience_buffer \<Rightarrow> 'a experience_buffer" where
  "fix_size self = self\<lparr>buffer := py_slice_from (buffer self) (- max_size self)\<rparr>"

definition append_data :: "'a experience_buffer \<Rightarrow> 'a \<Rightarrow> 'a experience_buffer" where
  "append_data self data = fix_size (self\<lparr>buffer := buffer self @ [data]\<rparr>)"

definition extend_data :: "'a experience_buffer \<Rightarrow> 'a list \<Rightarrow> 'a experience_buffer" where
  "extend_data self data = fix_size (self\<lparr>buffer := buffer self @ data\<rparr>)"

text \<open>A sequence of calls, and the items it adds, in order.\<close>

datatype 'a call = Append 'a | Extend "'a list"

fun do_call :: "'a experience_buffer \<Rightarrow> 'a call \<Rightarrow> 'a experience_buffer" where
  "do_call self (Append x) = append_data self x"
| "do_call self (Extend xs) = extend_data self xs"

definition do_calls :: "'a experience_buffer \<Rightarrow> 'a call list \<Rightarrow> 'a experience_buffer" where
  "do_calls self cs = foldl do_call self cs"

fun added :: "'a call \<Rightarrow> 'a list" where
  "added (Append x) = [x]"
| "added (Extend xs) = xs"

definition most_recent :: "nat \<Rightarrow> 'a list \<Rightarrow> 'a list" where
  "most_recent c xs = drop (length xs - c) xs"

subsection \<open>Sampling\<close>

text \<open>
  \<^verbatim>\<open>np.random.choice(range(pop), size=n, replace=replace)\<close>.  The indices drawn are the
  generator's; \<open>draw\<close> stands for them, and \<open>valid_draw\<close> is what the library promises of
  them.  The call raises a \<^verbatim>\<open>ValueError\<close> for a negative size, for an empty population
  unless no sample is taken, and for a sample without replacement larger than the
  population.
\<close>

definition np_random_choice :: "nat \<Rightarrow> int \<Rightarrow> bool \<Rightarrow> nat list \<Rightarrow> error + nat list" where
  "np_random_choice pop n replace draw =
     (if n < 0 then Inl SamplingError
      else if pop = 0 \<and> n \<noteq> 0 then Inl SamplingError
      else if \<not> replace \<and> int pop < n then Inl SamplingError
      else Inr draw)"

definition valid_draw :: "nat \<Rightarrow> int \<Rightarrow> bool \<Rightarrow> nat list \<Rightarrow> bool" where
  "valid_draw pop n replace draw =
     (int (length draw) = n \<and> list_all (\<lambda>i. i < pop) draw \<and> (replace \<or> distinct draw))"

fun emap :: "('a \<Rightarrow> error + 'b) \<Rightarrow> 'a list \<Rightarrow> error + 'b list" where
  "emap f [] = Inr []"
| "emap f (x # xs) = ebind (f x) (\<lambda>y. ebind (emap f xs) (\<lambda>ys. Inr (y # ys)))"

text \<open>
  A stored record is a tuple; it is the list of its fields here.
  \<^verbatim>\<open>np.array(batch_data).shape[1]\<close>: the array of \<open>n \<ge> 1\<close> tuples of one arity \<open>k\<close> has
  shape \<open>(n, k)\<close>.  The array of no tuple has shape \<open>(0,)\<close>, and tuples of different
  arities do not make a two-dimensional array: reading \<^verbatim>\<open>shape[1]\<close> raises.
\<close>

definition np_array_shape1 :: "'a list list \<Rightarrow> error + nat" where
  "np_array_shape1 batch_data =
     (case batch_data of
        [] \<Rightarrow> Inl IndexError
      | r # rs \<Rightarrow>
          if list_all (\<lambda>r'. length r' = length r) rs then Inr (length r)
          else Inl IndexError)"

definition sample ::
  "'a list experience_buffer \<Rightarrow> int \<Rightarrow> bool \<Rightarrow> nat list \<Rightarrow>
     error + ('a list list \<times> 'a list experience_buffer)" where
  "sample self n replace draw =
     ebind (np_random_choice (length (buffer self)) n replace draw) (\<lambda>data_idxs.
     ebind (emap (py_index (buffer self)) data_idxs) (\<lambda>batch_data.
     ebind (np_array_shape1 batch_data) (\<lambda>k.
       Inr (map (\<lambda>i. map (\<lambda>r. r ! i) batch_data) [0..<k], self))))"

section \<open>The dueling network, with its values\<close>

subsection \<open>Single-precision numbers\<close>













subsection \<open>Tensors and layers\<close>
























subsection \<open>The dueling combination as the specification words it\<close>




subsection \<open>Small networks, for the examples\<close>








section \<open>Architecture selection\<close>

lemmas factory_defs =
  get_hidden_size_from_obs_dim_def create_encoder_from_obs_dim_def
  create_decoder_from_obs_dim_def create_simple_1D_encoder_def create_simple_1D_decoder_def
  ebind_def py_index_def GYM_HIDDEN_SIZE_def GRIDWORLD_HIDDEN_SIZE_def ATARI_HIDDEN_SIZE_def

lemmas spec_defs =
  spec_policy_def spec_hidden_size_def spec_encoder_def second_at_most_32_def

lemma length_two: "length s = 2 \<longleftrightarrow> (\<exists>a b. s = [a, b])"
  by (cases s; simp; cases "tl s"; auto)

lemma length_one: "length s = Suc 0 \<longleftrightarrow> (\<exists>a. s = [a])"
  by (cases s) auto

lemma length_ge_two: "2 \<le> length s \<longleftrightarrow> (\<exists>a b t. s = a # b # t)"
  by (cases s; simp; cases "tl s"; auto)

text \<open>
  C1, as stated, fails: it gives every observation shape a family and a width, and a shape
  of length 1 has neither.  At the shape \<open>(5)\<close> the policy's last case gives the large
  grid and width 256, while both functions of the code read \<^verbatim>\<open>obs_dim[1]\<close> and raise
  an index error.
\<close>

theorem classifier_length_one_counterexample:
  "get_hidden_size_from_obs_dim [5] = Inl IndexError \<and>
   create_encoder_from_obs_dim [5] = Inl IndexError \<and>
   spec_hidden_size [5] = Inr 256 \<and>
   spec_encoder [5] = Inr (create_atari_encoder 5)"
  by (simp add: factory_defs spec_defs)

text \<open>
  C1, amended: for every observation shape of length at least 2, the hidden width and the
  encoder the code selects are those of the policy: a length-2 shape with first element at
  most 32 is flat with width 32 and the simple 1D encoder; a length-2 shape with a larger
  first element is unsupported; otherwise a second element at most 32 gives the small
  grid, width 64 and the gridworld encoder, and any other gives the large grid, width 256
  and the Atari encoder.
\<close>

theorem classifier_follows_policy:
  assumes "2 \<le> length obs_dim"
  shows "get_hidden_size_from_obs_dim obs_dim = spec_hidden_size obs_dim \<and>
         create_encoder_from_obs_dim obs_dim = spec_encoder obs_dim"
proof -
  from assms obtain a b t where s: "obs_dim = a # b # t"
    by (auto simp: length_ge_two)
  show ?thesis
    by (simp add: s factory_defs spec_defs)
qed

theorem classifier_follows_policy_witness:
  "get_hidden_size_from_obs_dim [32, 4] = Inr 32 \<and>
   create_encoder_from_obs_dim [32, 4] = Inr [Flatten, Linear 128 16, ReLU, Linear 16 32, ReLU] \<and>
   get_hidden_size_from_obs_dim [1, 20, 20] = Inr 64 \<and>
   create_encoder_from_obs_dim [1, 20, 20] = Inr (create_gridworld_encoder 1) \<and>
   get_hidden_size_from_obs_dim [4, 84, 84] = Inr 256 \<and>
   create_encoder_from_obs_dim [4, 84, 84] = Inr (create_atari_encoder 4) \<and>
   get_hidden_size_from_obs_dim [33, 4] = Inl ConfigError \<and>
   create_encoder_from_obs_dim [33, 4] = Inl ConfigError"
proof -
  have "(2::nat) \<le> length [32, 4::nat]" "(2::nat) \<le> length [1, 20, 20::nat]"
    "(2::nat) \<le> length [4, 84, 84::nat]" "(2::nat) \<le> length [33, 4::nat]"
    by simp_all
  from this[THEN classifier_follows_policy] show ?thesis
    by (simp add: spec_defs ebind_def create_simple_1D_encoder_def py_index_def)
qed

text \<open>
  C4: for every observation shape of length 2 whose first element exceeds 32, both
  \<open>get_hidden_size_from_obs_dim\<close> and \<open>create_encoder_from_obs_dim\<close> raise the
  configuration error, and return neither a width nor an encoder.
\<close>

theorem unsupported_flat_shape_fails:
  assumes "length obs_dim = 2" and "32 < obs_dim ! 0"
  shows "get_hidden_size_from_obs_dim obs_dim = Inl ConfigError \<and>
         create_encoder_from_obs_dim obs_dim = Inl ConfigError"
  using assms by (auto simp: length_two factory_defs)

theorem unsupported_flat_shape_fails_witness:
  "length [33, 4::nat] = 2 \<and> 32 < [33, 4::nat] ! 0 \<and>
   get_hidden_size_from_obs_dim [33, 4] = Inl ConfigError \<and>
   create_encoder_from_obs_dim [33, 4] = Inl ConfigError"
proof -
  have l: "length [33, 4::nat] = 2" and g: "32 < [33, 4::nat] ! 0"
    by simp_all
  from unsupported_flat_shape_fails[OF l g] l g show ?thesis
    by simp
qed



text \<open>
  C10: for every observation shape of length 1, \<open>get_hidden_size_from_obs_dim\<close> and
  \<open>create_encoder_from_obs_dim\<close> raise an index error; \<open>create_simple_1D_decoder\<close> raises
  one too, so \<open>create_decoder_from_obs_dim\<close> raises it when the first element is at most
  32 (and the configuration error otherwise): no function handles a shape of length 1
  without an exception.
\<close>

theorem length_one_shapes_raise:
  assumes "length s = 1"
  shows "get_hidden_size_from_obs_dim s = Inl IndexError \<and>
         create_encoder_from_obs_dim s = Inl IndexError \<and>
         create_simple_1D_decoder s = Inl IndexError \<and>
         create_decoder_from_obs_dim s =
           (if s ! 0 \<le> 32 then Inl IndexError else Inl ConfigError) \<and>
         raises (create_decoder_from_obs_dim s)"
  using assms by (auto simp: length_one factory_defs raises_def)

theorem length_one_shapes_raise_witness:
  "length [8::nat] = 1 \<and>
   get_hidden_size_from_obs_dim [8] = Inl IndexError \<and>
   create_encoder_from_obs_dim [8] = Inl IndexError \<and>
   create_simple_1D_decoder [8] = Inl IndexError \<and>
   create_decoder_from_obs_dim [8] = Inl IndexError \<and>
   create_decoder_from_obs_dim [40] = Inl ConfigError"
proof -
  have l: "length [8::nat] = 1" and l': "length [40::nat] = 1"
    by simp_all
  from length_one_shapes_raise[OF l] length_one_shapes_raise[OF l'] show ?thesis
    by simp
qed


section \<open>The experience buffer\<close>

lemma fix_size_positive:
  assumes "0 < max_size self"
  shows "fix_size self = self\<lparr>buffer := most_recent (nat (max_size self)) (buffer self)\<rparr>"
proof -
  have "nat (int (length (buffer self)) + - max_size self) =
      length (buffer self) - nat (max_size self)"
    using assms by linarith
  then show ?thesis using assms
    by (simp add: fix_size_def py_slice_from_def most_recent_def)
qed

lemma most_recent_append:
  "most_recent c (most_recent c xs @ ys) = most_recent c (xs @ ys)"
proof (cases "length xs \<le> c")
  case True
  then show ?thesis by (simp add: most_recent_def)
next
  case False
  then have "length xs + length ys - (length xs - c + c) + (length xs - c) =
      length xs + length ys - c" by simp
  then show ?thesis by (simp add: most_recent_def)
qed

lemma do_call_positive:
  "0 < max_size self \<Longrightarrow>
     do_call self c =
       self\<lparr>buffer := most_recent (nat (max_size self)) (buffer self @ added c)\<rparr>"
  by (cases c) (simp_all add: append_data_def extend_data_def fix_size_positive)

lemma do_calls_window:
  "0 < max_size self \<Longrightarrow> buffer self = most_recent (nat (max_size self)) hist \<Longrightarrow>
     max_size (do_calls self cs) = max_size self \<and>
     buffer (do_calls self cs) = most_recent (nat (max_size self)) (hist @ concat (map added cs))"
  unfolding do_calls_def
proof (induction cs arbitrary: self hist)
  case Nil
  then show ?case by simp
next
  case (Cons c cs)
  let ?s = "do_call self c"
  have m: "max_size ?s = max_size self"
    using Cons.prems(1) by (simp add: do_call_positive)
  have b: "buffer ?s = most_recent (nat (max_size ?s)) (hist @ added c)"
    using Cons.prems by (simp add: do_call_positive most_recent_append)
  from Cons.IH[of ?s "hist @ added c"] m b Cons.prems(1) show ?case by simp
qed

text \<open>
  With a capacity of 1 or more, the buffer holds, after any sequence of calls, the most
  recent items added, in the order of insertion, and never more than its capacity.
\<close>

lemma buffer_keeps_most_recent:
  assumes "0 < c"
  shows "max_size (do_calls (ExperienceBufferMixin_init c) cs) = c \<and>
         buffer (do_calls (ExperienceBufferMixin_init c) cs) =
           most_recent (nat c) (concat (map added cs)) \<and>
         int (length (buffer (do_calls (ExperienceBufferMixin_init c) cs))) \<le> c"
proof -
  have "max_size (do_calls (ExperienceBufferMixin_init c) cs) = c \<and>
         buffer (do_calls (ExperienceBufferMixin_init c) cs) =
           most_recent (nat c) ([] @ concat (map added cs))"
    using do_calls_window[of "ExperienceBufferMixin_init c" "[]" cs] assms
    by (simp add: ExperienceBufferMixin_init_def most_recent_def)
  then show ?thesis using assms by (auto simp: most_recent_def)
qed

lemma capacity_three_example:
  "buffer (do_calls (ExperienceBufferMixin_init 3)
     [Append 1, Append 2, Append 3, Append 4, Append (5::int)]) = [3, 4, 5]"
  by (simp add: do_calls_def append_data_def fix_size_def py_slice_from_def
      ExperienceBufferMixin_init_def)

text \<open>
  C2 at capacity 0: the slice \<^verbatim>\<open>self.buffer[-0:]\<close> is the whole list, so nothing is
  ever evicted.  After two calls of \<open>append_data\<close> the buffer of capacity 0 holds two
  items.
\<close>

theorem zero_capacity_buffer_grows:
  "buffer (do_calls (ExperienceBufferMixin_init 0) [Append 1, Append (2::int)]) = [1, 2] \<and>
   buffer (append_data (ExperienceBufferMixin_init 0) (1::int)) = [1] \<and>
   max_size (do_calls (ExperienceBufferMixin_init 0) [Append 1, Append (2::int)]) = 0"
  by (simp add: do_calls_def append_data_def fix_size_def py_slice_from_def
      ExperienceBufferMixin_init_def)

subsection \<open>Sampling\<close>

lemma emap_py_index:
  "list_all (\<lambda>i. i < length xs) is \<Longrightarrow> emap (py_index xs) is = Inr (map (\<lambda>i. xs ! i) is)"
  by (induction "is") (simp_all add: ebind_def py_index_def)

lemma np_array_shape1_uniform:
  "batch \<noteq> [] \<Longrightarrow> list_all (\<lambda>r. length r = k) batch \<Longrightarrow> np_array_shape1 batch = Inr k"
  by (cases batch) (auto simp: np_array_shape1_def list_all_iff)

text \<open>A sample without replacement larger than the buffer raises the sampling error.\<close>

lemma sample_too_many:
  "int (length (buffer self)) < n \<Longrightarrow> sample self n False draw = Inl SamplingError"
  by (simp add: sample_def np_random_choice_def ebind_def)

text \<open>
  A sample of \<open>n \<ge> 1\<close> records, at most the size of the buffer, from records of one arity
  \<open>k\<close>: one array for each position of the tuples, each of the \<open>n\<close> entries drawn.
\<close>

lemma sample_returns_columns:
  assumes n: "1 \<le> n" "n \<le> int (length (buffer self))"
    and d: "valid_draw (length (buffer self)) n replace draw"
    and k: "list_all (\<lambda>r. length r = k) (buffer self)"
  shows "sample self n replace draw =
           Inr (map (\<lambda>i. map (\<lambda>j. buffer self ! j ! i) draw) [0..<k], self)"
proof -
  have c: "np_random_choice (length (buffer self)) n replace draw = Inr draw"
    using n by (auto simp: np_random_choice_def)
  have e: "emap (py_index (buffer self)) draw = Inr (map (\<lambda>i. buffer self ! i) draw)"
    using d by (simp add: valid_draw_def emap_py_index)
  have ne: "map (\<lambda>i. buffer self ! i) draw \<noteq> []"
    using n d by (auto simp: valid_draw_def)
  have u: "list_all (\<lambda>r. length r = k) (map (\<lambda>i. buffer self ! i) draw)"
    using d k by (auto simp: valid_draw_def list_all_iff)
  show ?thesis
    by (simp add: sample_def c e ebind_def np_array_shape1_uniform[OF ne u] comp_def)
qed

lemma sample_size_five_example:
  "sample \<lparr>buffer = [[1, 2], [3, 4], [5, 6], [7, 8], [9, 10::int]], max_size = 10\<rparr> 2 False [3, 0]
     = Inr ([[7, 1], [8, 2]],
            \<lparr>buffer = [[1, 2], [3, 4], [5, 6], [7, 8], [9, 10::int]], max_size = 10\<rparr>) \<and>
   sample \<lparr>buffer = [[1, 2], [3, 4], [5, 6], [7, 8], [9, 10::int]], max_size = 10\<rparr> 6 False draw
     = Inl SamplingError"
  by (simp add: sample_def np_random_choice_def ebind_def np_array_shape1_def py_index_def
      upt_rec)

text \<open>
  C5 at \<open>n = 0\<close>: no index is drawn, \<^verbatim>\<open>np.array([])\<close> has the shape \<open>(0,)\<close>, and
  \<^verbatim>\<open>batch_data.shape[1]\<close> raises an index error: on a buffer of five records of two
  fields, \<^verbatim>\<open>sample(0)\<close> returns no array.
\<close>

theorem sample_zero_raises:
  "sample \<lparr>buffer = [[1, 2], [3, 4], [5, 6], [7, 8], [9, 10::int]], max_size = 10\<rparr> 0 False []
     = Inl IndexError"
  by (simp add: sample_def np_random_choice_def ebind_def np_array_shape1_def)

text \<open>
  C9: a call of \<open>sample\<close> that returns leaves the buffer as it was: its contents and its
  capacity are those before the call.
\<close>

theorem sample_is_read_only:
  assumes "sample self n replace draw = Inr (batch, self')"
  shows "self' = self \<and> buffer self' = buffer self \<and> max_size self' = max_size self"
  using assms by (auto simp: sample_def ebind_def split: sum.splits)

theorem sample_is_read_only_witness:
  "sample \<lparr>buffer = [[1, 2], [3, 4::int]], max_size = 10\<rparr> 1 True [1]
     = Inr ([[3], [4]], \<lparr>buffer = [[1, 2], [3, 4::int]], max_size = 10\<rparr>) \<and>
   buffer \<lparr>buffer = [[1, 2], [3, 4::int]], max_size = 10\<rparr> = [[1, 2], [3, 4]]"
proof -
  have s: "sample \<lparr>buffer = [[1, 2], [3, 4::int]], max_size = 10\<rparr> 1 True [1]
     = Inr ([[3], [4]], \<lparr>buffer = [[1, 2], [3, 4::int]], max_size = 10\<rparr>)"
    by (simp add: sample_def np_random_choice_def ebind_def np_array_shape1_def py_index_def
      upt_rec)
  from sample_is_read_only[OF s] s show ?thesis by simp
qed


section \<open>Shapes of the networks\<close>

lemma sequential_shape_append:
  "sequential_shape (xs @ ys) s = ebind (sequential_shape xs s) (sequential_shape ys)"
  by (induction xs arbitrary: s) (auto simp: ebind_def split: sum.splits)

lemma conv_shape_batch:
  assumes "conv_shape f c_in c_out (n # s) = Inr r" and "length s \<noteq> 2"
  shows "\<exists>t. r = n # t \<and> length t = 3 \<and> (\<forall>m. conv_shape f c_in c_out (m # s) = Inr (m # t))"
  using assms
  by (auto simp: conv_shape_def ebind_def split: list.splits if_splits sum.splits)

lemma conv_encoder_batch:
  assumes "sequential_shape [Conv2d c c1 k1 s1 p1, ReLU, Conv2d c1 c2 k2 s2 p2, ReLU] (1 # obs_dim) = Inr r"
    and "length obs_dim \<noteq> 2"
  shows "\<exists>t. r = 1 # t \<and> t \<noteq> [] \<and>
     (\<forall>n. sequential_shape [Conv2d c c1 k1 s1 p1, ReLU, Conv2d c1 c2 k2 s2 p2, ReLU] (n # obs_dim) = Inr (n # t))"
proof -
  from assms(1) obtain u where
    u: "conv_shape (conv_size k1 s1 p1) c c1 (1 # obs_dim) = Inr u"
    and r: "conv_shape (conv_size k2 s2 p2) c1 c2 u = Inr r"
    by (auto simp: ebind_def split: sum.splits)
  from conv_shape_batch[OF u assms(2)] obtain t where
    t: "u = 1 # t" "length t = 3"
    and ut: "\<forall>m. conv_shape (conv_size k1 s1 p1) c c1 (m # obs_dim) = Inr (m # t)"
    by blast
  from t(2) have t2: "length t \<noteq> 2" by simp
  from conv_shape_batch[OF r[unfolded t(1)] t2] obtain t' where
    t': "r = 1 # t'" "length t' = 3"
    and rt: "\<forall>m. conv_shape (conv_size k2 s2 p2) c1 c2 (m # t) = Inr (m # t')"
    by blast
  from t'(2) have "t' \<noteq> []" by auto
  with t'(1) ut rt show ?thesis by (simp add: ebind_def)
qed

lemma flat_encoder_batch:
  "sequential_shape [Flatten, Linear (a * b) 16, ReLU, Linear 16 32, ReLU] [n, a, b] = Inr [n, 32]"
  by (simp add: ebind_def)

lemma encoder_batch:
  assumes "create_encoder_from_obs_dim obs_dim = Inr enc"
    and "sequential_shape enc (1 # obs_dim) = Inr r"
  shows "\<exists>t. r = 1 # t \<and> t \<noteq> [] \<and>
    (\<forall>n. sequential_shape enc (n # obs_dim) = Inr (n # t))"
proof (cases "length obs_dim = 2")
  case True
  then obtain a b where o: "obs_dim = [a, b]" by (auto simp: length_two)
  from assms(1) have e: "enc = [Flatten, Linear (a * b) 16, ReLU, Linear 16 32, ReLU]"
    by (auto simp: o factory_defs split: if_splits)
  from assms(2) show ?thesis
    unfolding e o flat_encoder_batch by simp
next
  case False
  with assms(1) have "enc = create_gridworld_encoder (obs_dim ! 0) \<or> enc = create_atari_encoder (obs_dim ! 0)"
    by (auto simp: factory_defs split: if_splits)
  then show ?thesis
    using assms(2) False conv_encoder_batch
    unfolding create_gridworld_encoder_def create_atari_encoder_def by blast
qed


lemma head_shape:
  "t \<noteq> [] \<Longrightarrow>
   sequential_shape [Flatten, Linear (prod_list t) hidden, ReLU, Linear hidden n_acts] (b # t)
     = Inr [b, n_acts]"
  by (cases t) (simp_all add: ebind_def)

text \<open>
  C7, amended: for every observation shape, of positive sizes as the data model has
  them, for which the constructor of \<open>PolicyNetwork\<close> succeeds (the classifier accepts the
  shape and the trial forward pass of the encoder succeeds), for every number of actions
  and every batch of observations of that shape, \<open>forward\<close> returns a tensor of shape
  (batch size, number of actions).  The network is the encoder selected for the shape,
  then \<open>Flatten\<close>, a linear layer from the encoder's output size to the hidden width, the
  activation, and a linear layer to the number of actions.
\<close>

theorem policy_network_output_shape:
  assumes "PolicyNetwork_init obs_dim n_acts None None = Inr net"
    and "list_all (\<lambda>d. 0 < d) obs_dim"
  shows "PolicyNetwork_forward net (b # obs_dim) = Inr [b, n_acts] \<and>
         (\<exists>enc hidden.
            create_encoder_from_obs_dim obs_dim = Inr enc \<and>
            get_hidden_size_from_obs_dim obs_dim = Inr hidden \<and>
            layers net =
              enc @ [Flatten, Linear (encoder_output_size net) hidden, ReLU,
                     Linear hidden n_acts])"
proof -
  from assms(1) obtain enc eos hidden where
    enc: "create_encoder_from_obs_dim obs_dim = Inr enc"
    and eos: "trial_output_size enc obs_dim = Inr eos"
    and hid: "get_hidden_size_from_obs_dim obs_dim = Inr hidden"
    and net: "net = \<lparr>encoder_output_size = eos,
            layers = enc @ [Flatten, Linear eos hidden, ReLU, Linear hidden n_acts]\<rparr>"
    by (auto simp: PolicyNetwork_init_def choose_hidden_size_def ebind_def split: sum.splits)
  from eos obtain r where r: "sequential_shape enc (1 # obs_dim) = Inr r"
    and p: "eos = prod_list r"
    by (auto simp: trial_output_size_def ebind_def split: sum.splits)
  from encoder_batch[OF enc r] obtain t where t: "r = 1 # t" "t \<noteq> []"
    and run: "\<forall>n. sequential_shape enc (n # obs_dim) = Inr (n # t)"
    by blast
  have e: "eos = prod_list t" using p t by simp
  have "PolicyNetwork_forward net (b # obs_dim) = Inr [b, n_acts]"
    unfolding PolicyNetwork_forward_def net e
    using run head_shape[OF t(2)] by (simp add: sequential_shape_append ebind_def)
  with enc hid net show ?thesis by simp
qed


lemmas shape_defs =
  PolicyNetwork_init_def PolicyNetwork_forward_def StatePredictionModel_init_def
  StatePredictionModel_forward_def trial_output_size_def choose_hidden_size_def
  create_gridworld_encoder_def create_gridworld_decoder_def create_atari_encoder_def
  create_atari_decoder_def conv_shape_def conv_size_def conv_transpose_size_def
  view_rows_def view_as_def cat_dim1_def

theorem policy_network_output_shape_witness:
  "PolicyNetwork_init [32, 4] 2 None None =
     Inr \<lparr>encoder_output_size = 32,
          layers = [Flatten, Linear 128 16, ReLU, Linear 16 32, ReLU,
                    Flatten, Linear 32 32, ReLU, Linear 32 2]\<rparr> \<and>
   PolicyNetwork_forward
     \<lparr>encoder_output_size = 32,
      layers = [Flatten, Linear 128 16, ReLU, Linear 16 32, ReLU,
                Flatten, Linear 32 32, ReLU, Linear 32 2]\<rparr> [7, 32, 4] = Inr [7, 2] \<and>
   PolicyNetwork_init [4, 84, 84] 6 None None =
     Inr \<lparr>encoder_output_size = 576,
          layers = [Conv2d 4 32 5 5 0, ReLU, Conv2d 32 64 5 5 0, ReLU,
                    Flatten, Linear 576 256, ReLU, Linear 256 6]\<rparr> \<and>
   PolicyNetwork_forward
     \<lparr>encoder_output_size = 576,
      layers = [Conv2d 4 32 5 5 0, ReLU, Conv2d 32 64 5 5 0, ReLU,
                Flatten, Linear 576 256, ReLU, Linear 256 6]\<rparr> [3, 4, 84, 84] = Inr [3, 6]"
proof -
  have a: "PolicyNetwork_init [32, 4] 2 None None =
     Inr \<lparr>encoder_output_size = 32,
          layers = [Flatten, Linear 128 16, ReLU, Linear 16 32, ReLU,
                    Flatten, Linear 32 32, ReLU, Linear 32 2]\<rparr>"
    by (simp add: shape_defs factory_defs)
  have b: "PolicyNetwork_init [4, 84, 84] 6 None None =
     Inr \<lparr>encoder_output_size = 576,
          layers = [Conv2d 4 32 5 5 0, ReLU, Conv2d 32 64 5 5 0, ReLU,
                    Flatten, Linear 576 256, ReLU, Linear 256 6]\<rparr>"
    by (simp add: shape_defs factory_defs)
  have p: "list_all (\<lambda>d. 0 < d) [32, 4::nat]" "list_all (\<lambda>d. 0 < d) [4, 84, 84::nat]"
    by simp_all
  from policy_network_output_shape[OF a p(1), of 7]
    policy_network_output_shape[OF b p(2), of 3] a b
  show ?thesis by simp
qed

text \<open>
  C7, as stated, fails: the specification's unsupported shapes are the flat ones with a
  first element above 32, and the grid \<open>(1, 5, 5)\<close> is none of them: the classifier gives
  it the small grid family, width 64 and the gridworld encoder.  But the second
  convolution of that encoder has a kernel larger than the \<open>1 \<times> 1\<close> output of the first,
  so the trial forward pass of the constructor raises and no network returns anything.
\<close>

theorem policy_network_small_grid_counterexample:
  "spec_policy [1, 5, 5] = Inr (SmallGrid, 64) \<and>
   get_hidden_size_from_obs_dim [1, 5, 5] = Inr 64 \<and>
   create_encoder_from_obs_dim [1, 5, 5] =
     Inr [Conv2d 1 8 4 2 0, ReLU, Conv2d 8 16 3 1 0, ReLU] \<and>
   PolicyNetwork_init [1, 5, 5] 2 None None = Inl DimensionError"
  by (simp add: shape_defs factory_defs spec_defs)

text \<open>
  C8, amended: in a constructed \<open>StatePredictionModel\<close> the first layer of the transition
  function \<open>fc\<close> takes the encoder's flattened output width plus \<open>n_acts\<close> features.  The
  constructor receives no action vector, and its trial forward pass runs the encoder
  alone; a batch of actions whose width is not \<open>n_acts\<close> fails with a dimension error
  when \<open>forward\<close> is called.
\<close>

theorem world_model_action_width:
  assumes "StatePredictionModel_init obs_dim n_acts hidden_size = Inr m"
  shows "(\<exists>output_dim hidden.
            create_encoder_from_obs_dim obs_dim = Inr (downsample_convs m) \<and>
            trial_output_size (downsample_convs m) obs_dim = Inr output_dim \<and>
            fc m = [Linear (output_dim + n_acts) hidden, ReLU, Linear hidden hidden, ReLU,
                    Linear hidden output_dim, ReLU]) \<and>
         (w \<noteq> n_acts \<longrightarrow>
            StatePredictionModel_forward m (b # obs_dim) [b, w] = Inl DimensionError)"
proof -
  from assms obtain down output_dim hidden up where
    enc: "create_encoder_from_obs_dim obs_dim = Inr down"
    and eos: "trial_output_size down obs_dim = Inr output_dim"
    and m: "m = \<lparr>downsample_convs = down,
            fc = [Linear (output_dim + n_acts) hidden, ReLU, Linear hidden hidden, ReLU,
                  Linear hidden output_dim, ReLU],
            upsample_convs = up,
            encoder_spm = down @ [Flatten]\<rparr>"
    by (auto simp: StatePredictionModel_init_def ebind_def split: sum.splits)
  from eos obtain r where r: "sequential_shape down (1 # obs_dim) = Inr r"
    and p: "output_dim = prod_list r"
    by (auto simp: trial_output_size_def ebind_def split: sum.splits)
  from encoder_batch[OF enc r] obtain t where t: "r = 1 # t" "t \<noteq> []"
    and run: "\<forall>n. sequential_shape down (n # obs_dim) = Inr (n # t)"
    by blast
  have e: "output_dim = prod_list t" using p t by simp
  have "StatePredictionModel_forward m (b # obs_dim) [b, w] = Inl DimensionError"
    if "w \<noteq> n_acts"
    using that run
    by (simp add: StatePredictionModel_forward_def m e ebind_def py_index_def view_rows_def
        cat_dim1_def)
  with enc eos m show ?thesis by simp
qed

theorem world_model_action_width_witness:
  "StatePredictionModel_init [1, 20, 20] 4 None =
     Inr \<lparr>downsample_convs = [Conv2d 1 8 4 2 0, ReLU, Conv2d 8 16 3 1 0, ReLU],
          fc = [Linear 788 64, ReLU, Linear 64 64, ReLU, Linear 64 784, ReLU],
          upsample_convs = [ConvTranspose2d 16 8 3 1 0, ReLU, ConvTranspose2d 8 1 4 2 0,
                            Conv2d 1 1 3 1 1],
          encoder_spm = [Conv2d 1 8 4 2 0, ReLU, Conv2d 8 16 3 1 0, ReLU, Flatten]\<rparr> \<and>
   trial_output_size [Conv2d 1 8 4 2 0, ReLU, Conv2d 8 16 3 1 0, ReLU] [1, 20, 20] = Inr 784 \<and>
   (3::nat) \<noteq> 4 \<and>
   StatePredictionModel_forward
     \<lparr>downsample_convs = [Conv2d 1 8 4 2 0, ReLU, Conv2d 8 16 3 1 0, ReLU],
      fc = [Linear 788 64, ReLU, Linear 64 64, ReLU, Linear 64 784, ReLU],
      upsample_convs = [ConvTranspose2d 16 8 3 1 0, ReLU, ConvTranspose2d 8 1 4 2 0,
                        Conv2d 1 1 3 1 1],
      encoder_spm = [Conv2d 1 8 4 2 0, ReLU, Conv2d 8 16 3 1 0, ReLU, Flatten]\<rparr>
     [2, 1, 20, 20] [2, 3] = Inl DimensionError"
proof -
  have i: "StatePredictionModel_init [1, 20, 20] 4 None =
     Inr \<lparr>downsample_convs = [Conv2d 1 8 4 2 0, ReLU, Conv2d 8 16 3 1 0, ReLU],
          fc = [Linear 788 64, ReLU, Linear 64 64, ReLU, Linear 64 784, ReLU],
          upsample_convs = [ConvTranspose2d 16 8 3 1 0, ReLU, ConvTranspose2d 8 1 4 2 0,
                            Conv2d 1 1 3 1 1],
          encoder_spm = [Conv2d 1 8 4 2 0, ReLU, Conv2d 8 16 3 1 0, ReLU, Flatten]\<rparr>"
    by (simp add: shape_defs factory_defs)
  have t: "trial_output_size [Conv2d 1 8 4 2 0, ReLU, Conv2d 8 16 3 1 0, ReLU] [1, 20, 20]
      = Inr 784"
    by (simp add: shape_defs ebind_def)
  from world_model_action_width[OF i, of 3 2] i t show ?thesis
    by simp
qed

text \<open>
  C8, as stated, fails: a mismatch of the action width is not found at construction.
  The model for the shape \<open>(1, 20, 20)\<close> and 4 actions is constructed; the forward pass
  on a batch of 5 observations with actions of width 3 raises the dimension error, and
  with actions of width 4 it returns a batch of predicted observations.
\<close>

theorem world_model_mismatch_counterexample:
  "StatePredictionModel_init [1, 20, 20] 4 None =
     Inr \<lparr>downsample_convs = [Conv2d 1 8 4 2 0, ReLU, Conv2d 8 16 3 1 0, ReLU],
          fc = [Linear 788 64, ReLU, Linear 64 64, ReLU, Linear 64 784, ReLU],
          upsample_convs = [ConvTranspose2d 16 8 3 1 0, ReLU, ConvTranspose2d 8 1 4 2 0,
                            Conv2d 1 1 3 1 1],
          encoder_spm = [Conv2d 1 8 4 2 0, ReLU, Conv2d 8 16 3 1 0, ReLU, Flatten]\<rparr> \<and>
   StatePredictionModel_forward
     \<lparr>downsample_convs = [Conv2d 1 8 4 2 0, ReLU, Conv2d 8 16 3 1 0, ReLU],
      fc = [Linear 788 64, ReLU, Linear 64 64, ReLU, Linear 64 784, ReLU],
      upsample_convs = [ConvTranspose2d 16 8 3 1 0, ReLU, ConvTranspose2d 8 1 4 2 0,
                        Conv2d 1 1 3 1 1],
      encoder_spm = [Conv2d 1 8 4 2 0, ReLU, Conv2d 8 16 3 1 0, ReLU, Flatten]\<rparr>
     [5, 1, 20, 20] [5, 3] = Inl DimensionError \<and>
   StatePredictionModel_forward
     \<lparr>downsample_convs = [Conv2d 1 8 4 2 0, ReLU, Conv2d 8 16 3 1 0, ReLU],
      fc = [Linear 788 64, ReLU, Linear 64 64, ReLU, Linear 64 784, ReLU],
      upsample_convs = [ConvTranspose2d 16 8 3 1 0, ReLU, ConvTranspose2d 8 1 4 2 0,
                        Conv2d 1 1 3 1 1],
      encoder_spm = [Conv2d 1 8 4 2 0, ReLU, Conv2d 8 16 3 1 0, ReLU, Flatten]\<rparr>
     [5, 1, 20, 20] [5, 4] = Inr [5, 1, 20, 20]"
  by (simp add: shape_defs factory_defs)

section \<open>Single-precision rounding\<close>


















section \<open>The dueling network\<close>






























end
